theory Spec2Isabelle
  imports Main "HOL-Library.Word"
begin

unbundle bit_operations_syntax

section \<open>The JSON client helper of frontend/js/api.js\<close>

text \<open>
  The repository is one asynchronous function:
  \<^verbatim>\<open>
  const API_BASE = '/api';

  export async function api(path, method = "GET", body = null) {
    const res = await fetch(`${API_BASE}${path}`, {
      method,
      credentials: "include",
      headers: { "Content-Type": "application/json" },
      body: body ? JSON.stringify(body) : null,
    });

    if (!res.ok) {
      let msg = `Request failed (${res.status})`;
      try { const j = await res.json(); if (j?.message) msg = j.message; } catch {}
      throw new Error(msg);
    }
    return res.json();
  }
  \<close>
  It is embedded as a pure function \<open>api\<close>. What the function gets from its platform is
  made explicit: the answer of \<open>fetch\<close> to a request and the decimal printing of a
  number are fields of an environment, the outcome of \<open>res.json()\<close> is a field of the
  response, and the calls of \<open>fetch\<close> made so far are a list that \<open>api\<close> takes and
  returns. A promise that rejects with \<open>e\<close> is the value \<open>Inl e\<close>, one that resolves
  with \<open>v\<close> is \<open>Inr v\<close>. \<open>JSON.stringify\<close>, which \<open>api\<close> calls, and
  \<open>JSON.parse\<close>, with which the receiver reads the body sent, are written out after
  ECMA-262.
\<close>

subsection \<open>JavaScript values\<close>

text \<open>
  The values the function handles: \<open>undefined\<close>, \<open>null\<close>, booleans, numbers, strings,
  arrays and plain objects (own properties in enumeration order, each key once). A number
  is its IEEE 754 binary64 bit pattern. Characters are the 8-bit characters of HOL.
\<close>

datatype jsval =
    Undefined
  | Null
  | Bool bool
  | Num "64 word"
  | Str string
  | Arr "jsval list"
  | Obj "(string \<times> jsval) list"

text \<open>
  What a rejected promise carries: an \<open>Error\<close> made by \<open>new Error(msg)\<close> with its
  message, the \<open>TypeError\<close> that the language raises when an object has no primitive
  value (its text is implementation defined), or an exception of the platform
  (\<open>fetch\<close>, \<open>res.json()\<close>), given by name and message.
\<close>

datatype exn =
    Error string
  | TypeError
  | Platform string string

definition is_zero :: "64 word \<Rightarrow> bool" where
  "is_zero w \<longleftrightarrow> w AND 0x7FFFFFFFFFFFFFFF = 0"

definition is_finite :: "64 word \<Rightarrow> bool" where
  "is_finite w \<longleftrightarrow> w AND 0x7FF0000000000000 \<noteq> 0x7FF0000000000000"

definition is_NaN :: "64 word \<Rightarrow> bool" where
  "is_NaN w \<longleftrightarrow> \<not> is_finite w \<and> w AND 0x000FFFFFFFFFFFFF \<noteq> 0"

text \<open>ToBoolean, the test of \<open>body ? \<dots>\<close> and of \<open>if (j?.message)\<close>.\<close>

fun truthy :: "jsval \<Rightarrow> bool" where
  "truthy Undefined = False"
| "truthy Null = False"
| "truthy (Bool b) = b"
| "truthy (Num w) = (\<not> is_zero w \<and> \<not> is_NaN w)"
| "truthy (Str s) = (s \<noteq> [])"
| "truthy (Arr xs) = True"
| "truthy (Obj kvs) = True"

text \<open>
  \<open>j?.message\<close>: \<open>undefined\<close> when \<open>j\<close> is \<open>null\<close> or \<open>undefined\<close>; the own property
  of an object; \<open>undefined\<close> for every other value, none of which has a property of that
  name.
\<close>

fun get_message :: "jsval \<Rightarrow> jsval" where
  "get_message (Obj kvs) = (case map_of kvs ''message'' of Some v \<Rightarrow> v | None \<Rightarrow> Undefined)"
| "get_message j = Undefined"

subsection \<open>Strings of numbers and values\<close>

definition digit_char :: "nat \<Rightarrow> char" where
  "digit_char d = ''0123456789abcdef'' ! d"

text \<open>The decimal digits of a status code, as the template literal prints it.\<close>

fun show_nat :: "nat \<Rightarrow> string" where
  "show_nat n = (if n < 10 then [digit_char n] else show_nat (n div 10) @ [digit_char (n mod 10)])"

declare show_nat.simps [simp del]

text \<open>The number that a string of decimal digits denotes.\<close>

definition decimal_value :: "string \<Rightarrow> nat" where
  "decimal_value s = foldl (\<lambda>a c. 10 * a + (of_char c - 48)) 0 s"

fun join :: "string \<Rightarrow> string list \<Rightarrow> string" where
  "join sep [] = []"
| "join sep [x] = x"
| "join sep (x # y # ys) = x @ sep @ join sep (y # ys)"

text \<open>
  ToString, which \<open>new Error(msg)\<close> applies to its argument. \<open>nts\<close> is the platform's
  printing of a number. An array is the join of its elements, \<open>null\<close> and \<open>undefined\<close>
  printing as nothing. A plain object prints through \<open>Object.prototype.toString\<close>,
  unless an own property named \<open>toString\<close> (never callable here) hides it: then
  \<open>valueOf\<close> gives no primitive either and the conversion raises TypeError.
\<close>

fun to_string :: "(64 word \<Rightarrow> string) \<Rightarrow> jsval \<Rightarrow> exn + string"
  and join_elements :: "(64 word \<Rightarrow> string) \<Rightarrow> jsval list \<Rightarrow> exn + string list" where
  "to_string nts Undefined = Inr ''undefined''"
| "to_string nts Null = Inr ''null''"
| "to_string nts (Bool b) = Inr (if b then ''true'' else ''false'')"
| "to_string nts (Num w) = Inr (nts w)"
| "to_string nts (Str s) = Inr s"
| "to_string nts (Arr xs) =
     (case join_elements nts xs of Inl e \<Rightarrow> Inl e | Inr ss \<Rightarrow> Inr (join '','' ss))"
| "to_string nts (Obj kvs) =
     (if ''toString'' \<in> fst ` set kvs then Inl TypeError else Inr ''[object Object]'')"
| "join_elements nts [] = Inr []"
| "join_elements nts (x # xs) =
     (case (if x = Undefined \<or> x = Null then Inr [] else to_string nts x) of
        Inl e \<Rightarrow> Inl e
      | Inr s \<Rightarrow> (case join_elements nts xs of Inl e \<Rightarrow> Inl e | Inr ss \<Rightarrow> Inr (s # ss)))"

text \<open>\<open>throw new Error(msg)\<close>: the value thrown.\<close>

definition new_Error :: "(64 word \<Rightarrow> string) \<Rightarrow> jsval \<Rightarrow> exn" where
  "new_Error nts msg = (case to_string nts msg of Inl e \<Rightarrow> e | Inr s \<Rightarrow> Error s)"

subsection \<open>JSON.stringify\<close>

definition DQ :: char where
  "DQ = CHR 0x22"

definition BSL :: char where
  "BSL = CHR 0x5C"

text \<open>QuoteJSONString: the two-character escapes, \<open>\u00xx\<close> for other control characters.\<close>

definition quote_char :: "char \<Rightarrow> string" where
  "quote_char c =
     (if c = CHR 0x08 then [BSL, CHR ''b'']
      else if c = CHR 0x09 then [BSL, CHR ''t'']
      else if c = CHR 0x0A then [BSL, CHR ''n'']
      else if c = CHR 0x0C then [BSL, CHR ''f'']
      else if c = CHR 0x0D then [BSL, CHR ''r'']
      else if c = DQ then [BSL, DQ]
      else if c = BSL then [BSL, BSL]
      else if of_char c < (0x20::nat)
        then [BSL, CHR ''u'', CHR ''0'', CHR ''0'',
              digit_char (of_char c div 16), digit_char (of_char c mod 16)]
      else [c])"

definition quote :: "string \<Rightarrow> string" where
  "quote s = [DQ] @ concat (map quote_char s) @ [DQ]"

text \<open>
  SerializeJSONProperty without replacer and indentation. \<open>None\<close> is the result
  \<open>undefined\<close>. A number that is not finite prints as \<open>null\<close>, an \<open>undefined\<close> array
  element as \<open>null\<close>, and an \<open>undefined\<close> property is left out.
\<close>

fun JSON_stringify :: "(64 word \<Rightarrow> string) \<Rightarrow> jsval \<Rightarrow> string option" where
  "JSON_stringify nts Undefined = None"
| "JSON_stringify nts Null = Some ''null''"
| "JSON_stringify nts (Bool b) = Some (if b then ''true'' else ''false'')"
| "JSON_stringify nts (Num w) = Some (if is_finite w then nts w else ''null'')"
| "JSON_stringify nts (Str s) = Some (quote s)"
| "JSON_stringify nts (Arr xs) =
     Some (''['' @ join '','' (map (\<lambda>x. case JSON_stringify nts x of
                                          None \<Rightarrow> ''null'' | Some s \<Rightarrow> s) xs) @ '']'')"
| "JSON_stringify nts (Obj kvs) =
     Some (''{'' @ join '','' (concat (map (\<lambda>(k, v). case JSON_stringify nts v of
                                                   None \<Rightarrow> [] | Some s \<Rightarrow> [quote k @ '':'' @ s]) kvs))
           @ ''}'')"

subsection \<open>JSON.parse\<close>
























subsection \<open>Requests, responses and the platform\<close>

text \<open>
  One call of \<open>fetch\<close>: the URL and the fields of the options object. \<open>body = None\<close> is
  a request without a body (the options' \<open>body\<close> is \<open>null\<close> or \<open>undefined\<close>).
\<close>

record request =
  url :: string
  "method" :: string
  credentials :: string
  headers :: "(string \<times> string) list"
  body :: "string option"

text \<open>
  What \<open>api\<close> reads of a response: \<open>res.ok\<close>, \<open>res.status\<close> and the promise of
  \<open>res.json()\<close>, which rejects (\<open>Inl\<close>) when the body cannot be read or is not JSON and
  resolves with the parsed value otherwise.
\<close>

record response =
  ok :: bool
  status :: nat
  json :: "exn + jsval"

text \<open>
  The platform: \<open>fetch\<close> rejects (\<open>Inl\<close>) or resolves with a response;
  \<open>Number_toString\<close> prints a number.
\<close>

record env =
  fetch :: "request \<Rightarrow> exn + response"
  Number_toString :: "64 word \<Rightarrow> string"

definition API_BASE :: string where
  "API_BASE = ''/api''"

subsection \<open>api\<close>

text \<open>
  \<open>method_arg = None\<close> is an omitted method; an omitted body is \<open>Undefined\<close>, which
  the default parameter replaces by \<open>null\<close>. \<open>calls\<close> are the calls of \<open>fetch\<close> made
  before this invocation; the result is the settled promise and the calls made after it.
\<close>

definition api :: "env \<Rightarrow> string \<Rightarrow> string option \<Rightarrow> jsval \<Rightarrow> request list
    \<Rightarrow> (exn + jsval) \<times> request list" where
  "api E path method_arg body_arg calls =
     (let method = (case method_arg of None \<Rightarrow> ''GET'' | Some m \<Rightarrow> m);
          body = (if body_arg = Undefined then Null else body_arg);
          req = \<lparr> url = API_BASE @ path, method = method,
                  credentials = ''include'',
                  headers = [(''Content-Type'', ''application/json'')],
                  body = (if truthy body then JSON_stringify (Number_toString E) body else None) \<rparr>;
          calls' = calls @ [req]
      in case fetch E req of
           Inl e \<Rightarrow> (Inl e, calls')
         | Inr res \<Rightarrow>
             if \<not> ok res then
               (let msg0 = Str (''Request failed ('' @ show_nat (status res) @ '')'');
                    msg = (case json res of
                             Inr j \<Rightarrow> if truthy (get_message j) then get_message j else msg0
                           | Inl e \<Rightarrow> msg0)
                in (Inl (new_Error (Number_toString E) msg), calls'))
             else (json res, calls'))"

section \<open>Properties\<close>

subsection \<open>Auxiliary facts\<close>

lemma digit_char_value: "d < 10 \<Longrightarrow> of_char (digit_char d) - 48 = d"
proof -
  assume "d < 10"
  then have "d \<in> {0, 1, 2, 3, 4, 5, 6, 7, 8, 9}"
    by auto
  then show ?thesis
    by (auto simp: digit_char_def)
qed

lemma decimal_value_show_nat: "decimal_value (show_nat n) = n"
proof (induction n rule: show_nat.induct)
  case (1 n)
  show ?case
  proof (cases "n < 10")
    case True
    then show ?thesis
      by (simp add: show_nat.simps [of n] decimal_value_def digit_char_value)
  next
    case False
    with 1 have "decimal_value (show_nat (n div 10)) = n div 10"
      by simp
    with False show ?thesis
      by (simp add: show_nat.simps [of n] decimal_value_def digit_char_value)
  qed
qed

text \<open>Every invocation passes this request to \<open>fetch\<close> and records it after the earlier calls.\<close>

lemma api_calls:
  "snd (api E path m b calls) =
     calls @ [\<lparr> url = API_BASE @ path, method = (case m of None \<Rightarrow> ''GET'' | Some v \<Rightarrow> v),
                 credentials = ''include'',
                 headers = [(''Content-Type'', ''application/json'')],
                 body = (if truthy (if b = Undefined then Null else b)
                         then JSON_stringify (Number_toString E) (if b = Undefined then Null else b)
                         else None) \<rparr>]"
  by (simp add: api_def Let_def split: sum.split)

lemma api_fetch_rejects:
  "fetch E (last (snd (api E path m b calls))) = Inl e \<Longrightarrow> fst (api E path m b calls) = Inl e"
  by (simp add: api_calls) (simp add: api_def Let_def)

lemma api_success:
  "fetch E (last (snd (api E path m b calls))) = Inr res \<Longrightarrow> ok res
     \<Longrightarrow> fst (api E path m b calls) = json res"
  by (simp add: api_calls) (simp add: api_def Let_def)

lemma api_failure:
  "fetch E (last (snd (api E path m b calls))) = Inr res \<Longrightarrow> \<not> ok res
     \<Longrightarrow> fst (api E path m b calls) =
         Inl (new_Error (Number_toString E)
               (case json res of
                  Inr j \<Rightarrow> if truthy (get_message j) then get_message j
                           else Str (''Request failed ('' @ show_nat (status res) @ '')'')
                | Inl e \<Rightarrow> Str (''Request failed ('' @ show_nat (status res) @ '')'')))"
  by (simp add: api_calls) (simp add: api_def Let_def split: sum.split)

text \<open>ToString fails in one way only, and \<open>new Error\<close> never yields a platform exception.\<close>

lemma to_string_error:
  "to_string nts v = Inl e \<Longrightarrow> e = TypeError"
  "join_elements nts vs = Inl e \<Longrightarrow> e = TypeError"
  by (induction nts v and nts vs arbitrary: e and e rule: to_string_join_elements.induct)
     (auto split: if_splits sum.splits)

lemma new_Error_cases: "new_Error nts msg = TypeError \<or> (\<exists>s. new_Error nts msg = Error s)"
  by (auto simp: new_Error_def split: sum.split dest: to_string_error)

lemma new_Error_Str: "new_Error nts (Str s) = Error s"
  by (simp add: new_Error_def)

subsection \<open>JSON.parse inverts JSON.stringify on JSON values\<close>






























subsection \<open>Success path\<close>

text \<open>
  Claim C1. When \<open>fetch\<close> resolves with a response whose \<open>ok\<close> is true and whose
  \<open>json()\<close> resolves with the parsed body \<open>v\<close>, the promise of \<open>api\<close> resolves with
  \<open>v\<close> itself.
\<close>

theorem api_resolves_parsed_body:
  assumes "fetch E (last (snd (api E path m b calls))) = Inr res"
    and "ok res"
    and "json res = Inr v"
  shows "fst (api E path m b calls) = Inr v"
  using assms by (simp add: api_success)

theorem api_resolves_parsed_body_witness:
  "fst (api \<lparr> fetch = (\<lambda>r. Inr \<lparr> ok = True, status = 200,
                                  json = Inr (Obj [(''token'', Str ''xyz'')]) \<rparr>),
              Number_toString = (\<lambda>w. []) \<rparr>
         ''/login'' (Some ''POST'') (Obj [(''username'', Str ''a''), (''password'', Str ''b'')]) [])
   = Inr (Obj [(''token'', Str ''xyz'')])"
  using api_resolves_parsed_body
    [of "\<lparr> fetch = (\<lambda>r. Inr \<lparr> ok = True, status = 200,
                                json = Inr (Obj [(''token'', Str ''xyz'')]) \<rparr>),
            Number_toString = (\<lambda>w. []) \<rparr>"
        "''/login''" "Some ''POST''" "Obj [(''username'', Str ''a''), (''password'', Str ''b'')]" "[]"
        "\<lparr> ok = True, status = 200, json = Inr (Obj [(''token'', Str ''xyz'')]) \<rparr>"
        "Obj [(''token'', Str ''xyz'')]"]
  by simp

text \<open>
  Claim C7. When the response's \<open>ok\<close> is true and \<open>json()\<close> rejects with \<open>e\<close> (the
  body is empty or not JSON), the promise of \<open>api\<close> rejects with that same \<open>e\<close>: no
  \<open>Request failed\<close> message is made.
\<close>

theorem api_propagates_parse_failure:
  assumes "fetch E (last (snd (api E path m b calls))) = Inr res"
    and "ok res"
    and "json res = Inl e"
  shows "fst (api E path m b calls) = Inl e"
  using assms by (simp add: api_success)

theorem api_propagates_parse_failure_witness:
  "fst (api \<lparr> fetch = (\<lambda>r. Inr \<lparr> ok = True, status = 200,
                                  json = Inl (Platform ''SyntaxError'' ''Unexpected end of JSON input'') \<rparr>),
              Number_toString = (\<lambda>w. []) \<rparr>
         ''/ping'' None Undefined [])
   = Inl (Platform ''SyntaxError'' ''Unexpected end of JSON input'')"
  using api_propagates_parse_failure
    [of "\<lparr> fetch = (\<lambda>r. Inr \<lparr> ok = True, status = 200,
                                json = Inl (Platform ''SyntaxError'' ''Unexpected end of JSON input'') \<rparr>),
            Number_toString = (\<lambda>w. []) \<rparr>"
        "''/ping''" None Undefined "[]"
        "\<lparr> ok = True, status = 200,
           json = Inl (Platform ''SyntaxError'' ''Unexpected end of JSON input'') \<rparr>"
        "Platform ''SyntaxError'' ''Unexpected end of JSON input''"]
  by simp

subsection \<open>Failure path\<close>




text \<open>
  Claim C3. The response's \<open>ok\<close> is false and \<open>json()\<close> rejects (the body is not
  JSON), or it resolves with a value that has no \<open>message\<close> field. Then the promise
  rejects with an Error whose message is \<open>Request failed (\<close>, the decimal digits of
  \<open>res.status\<close>, and \<open>)\<close>.
\<close>

theorem api_rejects_with_default_message:
  assumes "fetch E (last (snd (api E path m b calls))) = Inr res"
    and "\<not> ok res"
    and "(\<exists>e. json res = Inl e) \<or>
         (\<exists>j. json res = Inr j \<and> (\<forall>kvs. j = Obj kvs \<longrightarrow> map_of kvs ''message'' = None))"
  shows "fst (api E path m b calls) =
           Inl (Error (''Request failed ('' @ show_nat (status res) @ '')''))
       \<and> decimal_value (show_nat (status res)) = status res"
proof -
  have "get_message j = Undefined"
    if "\<forall>kvs. j = Obj kvs \<longrightarrow> map_of kvs ''message'' = None" for j
    using that by (cases j) simp_all
  with assms show ?thesis
    by (auto simp: api_failure new_Error_Str decimal_value_show_nat)
qed

theorem api_rejects_with_default_message_witness:
  "fst (api \<lparr> fetch = (\<lambda>r. Inr \<lparr> ok = False, status = 503,
                                  json = Inl (Platform ''SyntaxError'' ''Unexpected end of JSON input'') \<rparr>),
              Number_toString = (\<lambda>w. []) \<rparr>
         ''/ping'' None Undefined [])
     = Inl (Error ''Request failed (503)'')
   \<and> fst (api \<lparr> fetch = (\<lambda>r. Inr \<lparr> ok = False, status = 500,
                                    json = Inr (Obj [(''error'', Str ''boom'')]) \<rparr>),
                Number_toString = (\<lambda>w. []) \<rparr>
           ''/ping'' None Undefined [])
     = Inl (Error ''Request failed (500)'')"
proof -
  have digits: "show_nat 503 = ''503''" "show_nat 500 = ''500''"
    by (simp_all add: show_nat.simps digit_char_def)
  have "fst (api \<lparr> fetch = (\<lambda>r. Inr \<lparr> ok = False, status = 503,
                                  json = Inl (Platform ''SyntaxError'' ''Unexpected end of JSON input'') \<rparr>),
              Number_toString = (\<lambda>w. []) \<rparr>
         ''/ping'' None Undefined [])
     = Inl (Error ''Request failed (503)'')"
    using api_rejects_with_default_message
      [of "\<lparr> fetch = (\<lambda>r. Inr \<lparr> ok = False, status = 503,
                                  json = Inl (Platform ''SyntaxError'' ''Unexpected end of JSON input'') \<rparr>),
              Number_toString = (\<lambda>w. []) \<rparr>"
          "''/ping''" None Undefined "[]"
          "\<lparr> ok = False, status = 503,
             json = Inl (Platform ''SyntaxError'' ''Unexpected end of JSON input'') \<rparr>"]
    by (simp add: digits)
  moreover have "fst (api \<lparr> fetch = (\<lambda>r. Inr \<lparr> ok = False, status = 500,
                                    json = Inr (Obj [(''error'', Str ''boom'')]) \<rparr>),
                Number_toString = (\<lambda>w. []) \<rparr>
           ''/ping'' None Undefined [])
     = Inl (Error ''Request failed (500)'')"
    using api_rejects_with_default_message
      [of "\<lparr> fetch = (\<lambda>r. Inr \<lparr> ok = False, status = 500,
                                  json = Inr (Obj [(''error'', Str ''boom'')]) \<rparr>),
              Number_toString = (\<lambda>w. []) \<rparr>"
          "''/ping''" None Undefined "[]"
          "\<lparr> ok = False, status = 500, json = Inr (Obj [(''error'', Str ''boom'')]) \<rparr>"]
    by (simp add: digits)
  ultimately show ?thesis
    by simp
qed

text \<open>
  Claim C10, as the code has it. The response's \<open>ok\<close> is false. If \<open>json()\<close>
  rejects, with whatever exception, the \<open>catch\<close> drops it and the promise rejects with
  an Error carrying the default message. In every case the promise rejects with what
  \<open>throw new Error(msg)\<close> raises, \<open>msg\<close> being the default message or the truthy
  \<open>message\<close> field of the parsed body: an Error carrying \<open>msg\<close> as a string, or the
  TypeError of converting \<open>msg\<close> to a string; never an exception of the platform.
\<close>

theorem api_swallows_error_body_failure:
  assumes "fetch E (last (snd (api E path m b calls))) = Inr res"
    and "\<not> ok res"
  shows "(\<forall>e. json res = Inl e \<longrightarrow>
            fst (api E path m b calls) =
              Inl (Error (''Request failed ('' @ show_nat (status res) @ '')'')))
       \<and> (\<exists>msg. fst (api E path m b calls) = Inl (new_Error (Number_toString E) msg)
              \<and> (msg = Str (''Request failed ('' @ show_nat (status res) @ '')'')
                   \<or> (\<exists>j. json res = Inr j \<and> msg = get_message j \<and> truthy msg)))
       \<and> (fst (api E path m b calls) = Inl TypeError
            \<or> (\<exists>s. fst (api E path m b calls) = Inl (Error s)))
       \<and> (\<forall>n t. fst (api E path m b calls) \<noteq> Inl (Platform n t))"
proof -
  let ?dflt = "Str (''Request failed ('' @ show_nat (status res) @ '')'')"
  let ?msg = "case json res of Inr j \<Rightarrow> if truthy (get_message j) then get_message j else ?dflt
              | Inl e \<Rightarrow> ?dflt"
  have out: "fst (api E path m b calls) = Inl (new_Error (Number_toString E) ?msg)"
    using assms by (rule api_failure)
  have swallowed: "\<forall>e. json res = Inl e \<longrightarrow> fst (api E path m b calls) =
      Inl (Error (''Request failed ('' @ show_nat (status res) @ '')''))"
    by (simp add: out new_Error_Str)
  have which: "?msg = ?dflt \<or> (\<exists>j. json res = Inr j \<and> ?msg = get_message j \<and> truthy ?msg)"
    by (cases "json res") auto
  have kind: "fst (api E path m b calls) = Inl TypeError
      \<or> (\<exists>s. fst (api E path m b calls) = Inl (Error s))"
    using new_Error_cases [of "Number_toString E" ?msg] by (auto simp: out)
  then have "\<forall>n t. fst (api E path m b calls) \<noteq> Inl (Platform n t)"
    by auto
  with swallowed out which kind show ?thesis
    by blast
qed

theorem api_swallows_error_body_failure_witness:
  "fst (api \<lparr> fetch = (\<lambda>r. Inr \<lparr> ok = False, status = 502,
                                  json = Inl (Platform ''SyntaxError'' ''Unexpected token < in JSON'') \<rparr>),
              Number_toString = (\<lambda>w. []) \<rparr>
         ''/users'' (Some ''POST'') (Obj [(''name'', Str ''a'')]) [])
     = Inl (Error ''Request failed (502)'')"
proof -
  have digits: "show_nat 502 = ''502''"
    by (simp add: show_nat.simps digit_char_def)
  show ?thesis
    using api_swallows_error_body_failure
      [of "\<lparr> fetch = (\<lambda>r. Inr \<lparr> ok = False, status = 502,
                                  json = Inl (Platform ''SyntaxError'' ''Unexpected token < in JSON'') \<rparr>),
              Number_toString = (\<lambda>w. []) \<rparr>"
          "''/users''" "Some ''POST''" "Obj [(''name'', Str ''a'')]" "[]"
          "\<lparr> ok = False, status = 502,
             json = Inl (Platform ''SyntaxError'' ''Unexpected token < in JSON'') \<rparr>"]
    by (simp add: digits)
qed

text \<open>
  The claim as stated, an Error carrying the extracted or the default message in every
  case, fails: at status 400 with the body \<open>{"message": {"toString": "x"}}\<close> the field
  is an object, so truthy, and \<open>new Error\<close> cannot convert it to a string. The promise
  rejects with that TypeError, which carries neither message.
\<close>

theorem api_unprintable_message_counterexample:
  "fst (api \<lparr> fetch = (\<lambda>r. Inr \<lparr> ok = False, status = 400,
                                  json = Inr (Obj [(''message'', Obj [(''toString'', Str ''x'')])]) \<rparr>),
              Number_toString = (\<lambda>w. []) \<rparr>
         ''/users'' None Undefined [])
     = Inl TypeError"
  by (simp add: api_def Let_def new_Error_def)

subsection \<open>The outbound request\<close>


lemma api_request_body:
  "body (last (snd (api E path m b calls))) =
     (if truthy b then JSON_stringify (Number_toString E) b else None)"
  by (auto simp: api_calls)

lemma api_result:
  "fst (api E path m b calls) =
     (case fetch E (last (snd (api E path m b calls))) of
        Inl e \<Rightarrow> Inl e
      | Inr res \<Rightarrow>
          if ok res then json res
          else Inl (new_Error (Number_toString E)
                 (case json res of
                    Inr j \<Rightarrow> if truthy (get_message j) then get_message j
                             else Str (''Request failed ('' @ show_nat (status res) @ '')'')
                  | Inl e \<Rightarrow> Str (''Request failed ('' @ show_nat (status res) @ '')''))))"
proof (cases "fetch E (last (snd (api E path m b calls)))")
  case (Inl e)
  then show ?thesis
    by (simp add: api_fetch_rejects)
next
  case (Inr res)
  then show ?thesis
    by (cases "ok res") (simp_all add: api_success api_failure)
qed

lemma api_same_answer:
  assumes printer: "Number_toString E' = Number_toString E"
    and answer: "fetch E' (last (snd (api E path m b calls))) = fetch E (last (snd (api E path m b calls)))"
  shows "api E' path m b calls = api E path m b calls"
proof (rule prod_eqI)
  show log: "snd (api E' path m b calls) = snd (api E path m b calls)"
    by (simp add: api_calls printer)
  have "fst (api E' path m b calls) =
     (case fetch E' (last (snd (api E path m b calls))) of
        Inl e \<Rightarrow> Inl e
      | Inr res \<Rightarrow>
          if ok res then json res
          else Inl (new_Error (Number_toString E')
                 (case json res of
                    Inr j \<Rightarrow> if truthy (get_message j) then get_message j
                             else Str (''Request failed ('' @ show_nat (status res) @ '')'')
                  | Inl e \<Rightarrow> Str (''Request failed ('' @ show_nat (status res) @ '')''))))"
    using api_result [of E' path m b calls] by (simp only: log)
  then show "fst (api E' path m b calls) = fst (api E path m b calls)"
    by (simp only: answer printer api_result [of E path m b calls, symmetric])
qed


text \<open>
  Claim C8. Whatever \<open>fetch\<close> answers (a rejection, any status, a body that parses or
  not), an invocation calls \<open>fetch\<close> exactly once. One request is added to the calls
  made before. The answer of \<open>fetch\<close> to that request decides the result: a rejection
  is passed on, a response with \<open>ok\<close> gives its \<open>json()\<close>, any other response the
  thrown Error. And no answer of \<open>fetch\<close> to another request plays a part: a platform
  that answers this one request alike gives the same result and the same calls.
\<close>

theorem api_one_fetch_call:
  "\<exists>req. snd (api E path m b calls) = calls @ [req]
     \<and> length (snd (api E path m b calls)) = length calls + 1
     \<and> fst (api E path m b calls) =
         (case fetch E req of
            Inl e \<Rightarrow> Inl e
          | Inr res \<Rightarrow>
              if ok res then json res
              else Inl (new_Error (Number_toString E)
                     (case json res of
                        Inr j \<Rightarrow> if truthy (get_message j) then get_message j
                                 else Str (''Request failed ('' @ show_nat (status res) @ '')'')
                      | Inl e \<Rightarrow> Str (''Request failed ('' @ show_nat (status res) @ '')''))))
     \<and> (\<forall>E'. Number_toString E' = Number_toString E \<and> fetch E' req = fetch E req
           \<longrightarrow> api E' path m b calls = api E path m b calls)"
proof -
  let ?req = "last (snd (api E path m b calls))"
  have log: "snd (api E path m b calls) = calls @ [?req]"
    by (simp add: api_calls)
  have count: "length (snd (api E path m b calls)) = length calls + 1"
    by (simp add: api_calls)
  have result: "fst (api E path m b calls) =
         (case fetch E ?req of
            Inl e \<Rightarrow> Inl e
          | Inr res \<Rightarrow>
              if ok res then json res
              else Inl (new_Error (Number_toString E)
                     (case json res of
                        Inr j \<Rightarrow> if truthy (get_message j) then get_message j
                                 else Str (''Request failed ('' @ show_nat (status res) @ '')'')
                      | Inl e \<Rightarrow> Str (''Request failed ('' @ show_nat (status res) @ '')''))))"
    by (rule api_result)
  have alone: "\<forall>E'. Number_toString E' = Number_toString E \<and> fetch E' ?req = fetch E ?req
      \<longrightarrow> api E' path m b calls = api E path m b calls"
    using api_same_answer by blast
  from log count result alone show ?thesis
    by blast
qed

theorem api_one_fetch_call_witness:
  "api \<lparr> fetch = (\<lambda>r. if url r = ''/api/ping'' then Inr \<lparr> ok = True, status = 200, json = Inr (Str ''pong'') \<rparr>
                      else Inl (Platform ''TypeError'' ''Failed to fetch'')),
         Number_toString = (\<lambda>w. []) \<rparr>
     ''/ping'' None Undefined []
   = api \<lparr> fetch = (\<lambda>r. Inr \<lparr> ok = True, status = 200, json = Inr (Str ''pong'') \<rparr>),
           Number_toString = (\<lambda>w. []) \<rparr>
       ''/ping'' None Undefined []"
proof -
  let ?E = "\<lparr> fetch = (\<lambda>r. Inr \<lparr> ok = True, status = 200, json = Inr (Str ''pong'') \<rparr>),
              Number_toString = (\<lambda>w. []) \<rparr>"
  let ?E' = "\<lparr> fetch = (\<lambda>r. if url r = ''/api/ping''
                               then Inr \<lparr> ok = True, status = 200, json = Inr (Str ''pong'') \<rparr>
                               else Inl (Platform ''TypeError'' ''Failed to fetch'')),
               Number_toString = (\<lambda>w. []) \<rparr>"
  from api_one_fetch_call [of ?E "''/ping''" None Undefined "[]"]
  obtain req where log: "snd (api ?E ''/ping'' None Undefined []) = [] @ [req]"
    and alone: "\<forall>E'. Number_toString E' = Number_toString ?E \<and> fetch E' req = fetch ?E req
      \<longrightarrow> api E' ''/ping'' None Undefined [] = api ?E ''/ping'' None Undefined []"
    by blast
  from log have "url req = ''/api/ping''"
    by (auto simp: api_calls API_BASE_def)
  then have "Number_toString ?E' = Number_toString ?E \<and> fetch ?E' req = fetch ?E req"
    by simp
  with alone show ?thesis
    by blast
qed

text \<open>
  Claim C5. With the body argument omitted (\<open>undefined\<close>, replaced by the default
  \<open>null\<close>), the request has no body.
\<close>

theorem api_omitted_body_sends_none:
  "body (last (snd (api E path m Undefined calls))) = None"
  by (simp add: api_request_body)

text \<open>
  Claim C9. A falsy body argument (\<open>0\<close>, \<open>-0\<close>, \<open>NaN\<close>, the empty string,
  \<open>false\<close>, \<open>null\<close>) is not serialized: the request has no body, and the whole
  invocation behaves as with the argument omitted.
\<close>

theorem api_falsy_body_sends_none:
  assumes "\<not> truthy b"
  shows "body (last (snd (api E path m b calls))) = None
       \<and> api E path m b calls = api E path m Undefined calls"
  using assms by (simp add: api_request_body) (simp add: api_def)

theorem api_falsy_body_sends_none_witness:
  "body (last (snd (api \<lparr> fetch = (\<lambda>r. Inr \<lparr> ok = True, status = 200, json = Inr Null \<rparr>),
                           Number_toString = (\<lambda>w. ''0'') \<rparr>
                     ''/count'' (Some ''PUT'') (Num 0) []))) = None
   \<and> body (last (snd (api \<lparr> fetch = (\<lambda>r. Inr \<lparr> ok = True, status = 200, json = Inr Null \<rparr>),
                             Number_toString = (\<lambda>w. ''0'') \<rparr>
                       ''/count'' (Some ''PUT'') (Str []) []))) = None
   \<and> body (last (snd (api \<lparr> fetch = (\<lambda>r. Inr \<lparr> ok = True, status = 200, json = Inr Null \<rparr>),
                             Number_toString = (\<lambda>w. ''0'') \<rparr>
                       ''/count'' (Some ''PUT'') (Bool False) []))) = None"
  using api_falsy_body_sends_none
      [of "Num 0" "\<lparr> fetch = (\<lambda>r. Inr \<lparr> ok = True, status = 200, json = Inr Null \<rparr>),
                      Number_toString = (\<lambda>w. ''0'') \<rparr>" "''/count''" "Some ''PUT''" "[]", THEN conjunct1]
    api_falsy_body_sends_none
      [of "Str []" "\<lparr> fetch = (\<lambda>r. Inr \<lparr> ok = True, status = 200, json = Inr Null \<rparr>),
                       Number_toString = (\<lambda>w. ''0'') \<rparr>" "''/count''" "Some ''PUT''" "[]", THEN conjunct1]
    api_falsy_body_sends_none
      [of "Bool False" "\<lparr> fetch = (\<lambda>r. Inr \<lparr> ok = True, status = 200, json = Inr Null \<rparr>),
                           Number_toString = (\<lambda>w. ''0'') \<rparr>" "''/count''" "Some ''PUT''" "[]", THEN conjunct1]
  by (simp add: is_zero_def)




end
